theory Spec2Isabelle
  imports Main "HOL-Library.Word"
begin

section \<open>Python values and exceptions\<close>

text \<open>
  The retriever (\<^verbatim>\<open>askem/retriever/base.py\<close>) handles JSON-shaped Python values: the
  dictionaries it sends to the vector database and the dictionary the database returns.
  Floats are only passed through, never computed on, so their type is the parameter
  \<open>'f\<close>; its \<open>0\<close> is what Python's truth test of a float compares with.
  A Python \<^verbatim>\<open>dict\<close> is an association list in insertion order, read with \<open>map_of\<close>.
\<close>

datatype 'f json =
    JNull
  | JBool bool
  | JInt int
  | JFloat 'f
  | JStr string
  | JList "'f json list"
  | JDict "(string \<times> 'f json) list"

type_synonym 'f dict = "(string \<times> 'f json) list"

text \<open>Exceptions of Python itself and of the services the code calls.\<close>

datatype exn =
    KeyError string
  | TypeError
  | IndexError
  | ValueError
  | AttributeError
  | RuntimeError
  | External string

text \<open>
  What \<^verbatim>\<open>get_documents\<close> raises: an \<^verbatim>\<open>HTTPException\<close> with its status code and
  its detail, or any other exception.
\<close>

datatype 'f error =
    HTTPException nat "'f json"
  | Raised exn

text \<open>
  The call \<^verbatim>\<open>HTTPException(status_code=..., detail=...)\<close>. The class is FastAPI's, on top
  of Starlette's, whose constructor replaces a detail that is \<^verbatim>\<open>None\<close> by the phrase of
  the status code, \<^verbatim>\<open>http.HTTPStatus(status_code).phrase\<close>. Of that table the model keeps
  the two codes that the retriever raises; \<^verbatim>\<open>HTTPStatus\<close> raises \<^verbatim>\<open>ValueError\<close> on a
  code that it does not have.
\<close>

definition status_phrase :: "nat \<Rightarrow> string option" where
  "status_phrase status_code =
     (if status_code = 404 then Some ''Not Found''
      else if status_code = 500 then Some ''Internal Server Error''
      else None)"

definition http_exception :: "nat \<Rightarrow> 'f json \<Rightarrow> 'f error" where
  "http_exception status_code detail =
     (case detail of
        JNull \<Rightarrow>
          (case status_phrase status_code of
             None \<Rightarrow> Raised ValueError
           | Some phrase \<Rightarrow> HTTPException status_code (JStr phrase))
      | _ \<Rightarrow> HTTPException status_code detail)"

text \<open>\<^verbatim>\<open>key in d\<close> and \<^verbatim>\<open>d[key] = value\<close> on a dictionary.\<close>

definition dict_contains :: "'f dict \<Rightarrow> string \<Rightarrow> bool" where
  "dict_contains d k = (map_of d k \<noteq> None)"

fun dict_set :: "'f dict \<Rightarrow> string \<Rightarrow> 'f json \<Rightarrow> 'f dict" where
  "dict_set [] k v = [(k, v)]"
| "dict_set ((k', v') # d) k v = (if k' = k then (k, v) # d else (k', v') # dict_set d k v)"

text \<open>
  \<^verbatim>\<open>x[key]\<close> with a string key: \<^verbatim>\<open>KeyError\<close> on a dictionary without the key,
  \<^verbatim>\<open>TypeError\<close> on a list, a string, a number, a boolean or \<^verbatim>\<open>None\<close>.
\<close>

fun getitem :: "'f json \<Rightarrow> string \<Rightarrow> 'f error + 'f json" where
  "getitem (JDict d) k =
     (case map_of d k of None \<Rightarrow> Inl (Raised (KeyError k)) | Some v \<Rightarrow> Inr v)"
| "getitem _ k = Inl (Raised TypeError)"

text \<open>Python's truth test, as \<^verbatim>\<open>not x\<close> applies it.\<close>

fun truthy :: "('f::zero) json \<Rightarrow> bool" where
  "truthy JNull = False"
| "truthy (JBool b) = b"
| "truthy (JInt i) = (i \<noteq> 0)"
| "truthy (JFloat x) = (x \<noteq> 0)"
| "truthy (JStr s) = (s \<noteq> [])"
| "truthy (JList xs) = (xs \<noteq> [])"
| "truthy (JDict d) = (d \<noteq> [])"

text \<open>\<^verbatim>\<open>len(x)\<close>: numbers, booleans and \<^verbatim>\<open>None\<close> have no length.\<close>

fun py_len :: "'f json \<Rightarrow> 'f error + nat" where
  "py_len (JStr s) = Inr (length s)"
| "py_len (JList xs) = Inr (length xs)"
| "py_len (JDict d) = Inr (length d)"
| "py_len _ = Inl (Raised TypeError)"

text \<open>
  \<^verbatim>\<open>for result in x\<close>: a list gives its elements, a dictionary its keys, a string its
  characters; anything else is not iterable.
\<close>

fun py_iter :: "'f json \<Rightarrow> 'f error + 'f json list" where
  "py_iter (JList xs) = Inr xs"
| "py_iter (JDict d) = Inr (map (\<lambda>kv. JStr (fst kv)) d)"
| "py_iter (JStr s) = Inr (map (\<lambda>c. JStr [c]) s)"
| "py_iter _ = Inl (Raised TypeError)"

text \<open>A list comprehension over a function that may raise: the first exception ends it.\<close>

fun comprehension :: "('a \<Rightarrow> 'e + 'b) \<Rightarrow> 'a list \<Rightarrow> 'e + 'b list" where
  "comprehension f [] = Inr []"
| "comprehension f (x # xs) =
     (case f x of
        Inl e \<Rightarrow> Inl e
      | Inr y \<Rightarrow> (case comprehension f xs of Inl e \<Rightarrow> Inl e | Inr ys \<Rightarrow> Inr (y # ys)))"

section \<open>The retriever: \<^verbatim>\<open>askem/retriever/base.py\<close>\<close>

subsection \<open>The schema\<close>

definition skip_vectorizer :: "'f json" where
  "skip_vectorizer = JDict [(''text2vec-transformers'', JDict [(''skip'', JBool True)])]"

definition get_schema :: "string \<Rightarrow> 'f json" where
  "get_schema class_name = JDict
     [(''class'', JStr class_name),
      (''description'', JStr ''Paragraph chunk of a document''),
      (''vectorizer'', JStr ''text2vec-transformers''),
      (''moduleConfig'',
         JDict [(''text2vec-transformers'', JDict [(''vectorizeClassName'', JBool False)])]),
      (''vectorIndexConfig'', JDict [(''distance'', JStr ''dot'')]),
      (''properties'', JList
        [JDict [(''name'', JStr ''paper_id''),
                (''dataType'', JList [JStr ''text'']),
                (''moduleConfig'', skip_vectorizer)],
         JDict [(''name'', JStr ''preprocessor_id''),
                (''dataType'', JList [JStr ''text'']),
                (''moduleConfig'', skip_vectorizer)],
         JDict [(''name'', JStr ''doc_type''),
                (''dataType'', JList [JStr ''text'']),
                (''moduleConfig'', skip_vectorizer)],
         JDict [(''name'', JStr ''cosmos_object_id''),
                (''dataType'', JList [JStr ''text'']),
                (''moduleConfig'', skip_vectorizer)],
         JDict [(''name'', JStr ''topic_list''),
                (''dataType'', JList [JStr ''text[]'']),
                (''moduleConfig'', skip_vectorizer)],
         JDict [(''name'', JStr ''hashed_text''),
                (''description'', JStr ''SHA256 hash of text_content''),
                (''dataType'', JList [JStr ''text'']),
                (''moduleConfig'', skip_vectorizer)],
         JDict [(''name'', JStr ''text_content''),
                (''dataType'', JList [JStr ''text''])]])]"

text \<open>
  \<^verbatim>\<open>init_retriever\<close> creates the class of \<^verbatim>\<open>get_schema()\<close> in the database; the
  database's schema is the list of the classes created so far.
\<close>

definition init_retriever :: "'f json list \<Rightarrow> 'f json list" where
  "init_retriever db_schema = db_schema @ [get_schema ''Passage'']"

text \<open>The names a class schema declares: the \<^verbatim>\<open>name\<close> of each of its \<^verbatim>\<open>properties\<close>.\<close>

fun property_name :: "'f json \<Rightarrow> string list" where
  "property_name (JDict p) = (case map_of p ''name'' of Some (JStr n) \<Rightarrow> [n] | _ \<Rightarrow> [])"
| "property_name _ = []"

fun declared_properties :: "'f json \<Rightarrow> string list" where
  "declared_properties (JDict s) =
     (case map_of s ''properties'' of
        Some (JList ps) \<Rightarrow> concat (map property_name ps)
      | _ \<Rightarrow> [])"
| "declared_properties _ = []"

subsection \<open>Documents\<close>

text \<open>
  Modelled from the spec: \<^verbatim>\<open>data_models.Document\<close> is imported by the retriever and is
  not among the source files. The spec describes it as a plain record of paper id, topic,
  object id, doc type, text and distance score; the field names are those of the
  constructor call in \<^verbatim>\<open>to_document\<close>. Each field holds the value it was given.
\<close>

record 'f Document =
  paper_id :: "'f json"
  topic :: "'f json"
  cosmos_object_id :: "'f json"
  doc_type :: "'f json"
  "text" :: "'f json"
  distance :: "'f json"

text \<open>The keyword arguments are evaluated left to right; the first failing read raises.\<close>

definition to_document :: "'f json \<Rightarrow> 'f error + 'f Document" where
  "to_document result =
     (case getitem result ''paper_id'' of Inl e \<Rightarrow> Inl e | Inr v1 \<Rightarrow>
     (case getitem result ''topic'' of Inl e \<Rightarrow> Inl e | Inr v2 \<Rightarrow>
     (case getitem result ''cosmos_object_id'' of Inl e \<Rightarrow> Inl e | Inr v3 \<Rightarrow>
     (case getitem result ''doc_type'' of Inl e \<Rightarrow> Inl e | Inr v4 \<Rightarrow>
     (case getitem result ''text_content'' of Inl e \<Rightarrow> Inl e | Inr v5 \<Rightarrow>
     (case getitem result ''_additional'' of Inl e \<Rightarrow> Inl e | Inr a \<Rightarrow>
     (case getitem a ''distance'' of Inl e \<Rightarrow> Inl e | Inr v6 \<Rightarrow>
        Inr \<lparr>paper_id = v1, topic = v2, cosmos_object_id = v3, doc_type = v4,
             text = v5, distance = v6\<rparr>)))))))"

subsection \<open>The query\<close>

text \<open>
  The query builder of the database client: \<^verbatim>\<open>client.query.get(class, properties)\<close>
  starts a query, each \<^verbatim>\<open>with_...\<close> call sets one part of it, and \<^verbatim>\<open>do()\<close> sends it.
  The builder checks what it is given: \<^verbatim>\<open>with_limit\<close> raises \<^verbatim>\<open>ValueError\<close> on a limit
  below 1, and \<^verbatim>\<open>with_near_text\<close> raises \<^verbatim>\<open>AttributeError\<close> when the query already has a
  near clause and checks the payload as \<open>check_near_text\<close> below says.
  \<^verbatim>\<open>with_where\<close> checks the shape of its filter, which the filters built here have.
\<close>

record 'f query =
  class_name :: string
  properties :: "string list"
  additional :: "string list"
  where_filter :: "'f json option"
  near_text :: "'f json option"
  limit :: "int option"

definition query_get :: "string \<Rightarrow> string list \<Rightarrow> 'f query" where
  "query_get c ps = \<lparr>class_name = c, properties = ps, additional = [],
     where_filter = None, near_text = None, limit = None\<rparr>"

definition with_additional :: "string list \<Rightarrow> 'f query \<Rightarrow> 'f query" where
  "with_additional ps q = q\<lparr>additional := ps\<rparr>"

definition with_where :: "'f json \<Rightarrow> 'f query \<Rightarrow> 'f query" where
  "with_where w q = q\<lparr>where_filter := Some w\<rparr>"

text \<open>
  The checks of a \<^verbatim>\<open>nearText\<close> payload, in the order of the library, each raising on the
  first value that fails: \<^verbatim>\<open>concepts\<close> must be there (\<^verbatim>\<open>ValueError\<close>) and be a list or a
  string (\<^verbatim>\<open>TypeError\<close>); \<^verbatim>\<open>distance\<close>, when there, must be a float (\<^verbatim>\<open>TypeError\<close>);
  \<^verbatim>\<open>moveTo\<close> and then \<^verbatim>\<open>moveAwayFrom\<close>, when there, must be a dictionary (\<^verbatim>\<open>TypeError\<close>)
  with \<^verbatim>\<open>concepts\<close> or \<^verbatim>\<open>objects\<close> (\<^verbatim>\<open>ValueError\<close>), its \<^verbatim>\<open>concepts\<close> a list or a string
  (\<^verbatim>\<open>TypeError\<close>), and a \<^verbatim>\<open>force\<close> (\<^verbatim>\<open>ValueError\<close>) that is a float (\<^verbatim>\<open>TypeError\<close>).
  The checks of the entries that \<^verbatim>\<open>get_documents\<close> never writes (\<^verbatim>\<open>certainty\<close>,
  \<^verbatim>\<open>autocorrect\<close>, the content of \<^verbatim>\<open>objects\<close>) are left out.
\<close>

fun is_float :: "'f json \<Rightarrow> bool" where
  "is_float (JFloat x) = True"
| "is_float _ = False"

fun is_list_or_str :: "'f json \<Rightarrow> bool" where
  "is_list_or_str (JList xs) = True"
| "is_list_or_str (JStr s) = True"
| "is_list_or_str _ = False"

fun check_direction_clause :: "'f json \<Rightarrow> exn option" where
  "check_direction_clause (JDict direction) =
     (case map_of direction ''concepts'' of
        None \<Rightarrow>
          (case map_of direction ''objects'' of
             None \<Rightarrow> Some ValueError
           | Some objects \<Rightarrow>
               (case map_of direction ''force'' of
                  None \<Rightarrow> Some ValueError
                | Some force \<Rightarrow> if is_float force then None else Some TypeError))
      | Some concepts \<Rightarrow>
          if \<not> is_list_or_str concepts then Some TypeError
          else
            (case map_of direction ''force'' of
               None \<Rightarrow> Some ValueError
             | Some force \<Rightarrow> if is_float force then None else Some TypeError))"
| "check_direction_clause _ = Some TypeError"

definition check_near_text :: "'f dict \<Rightarrow> exn option" where
  "check_near_text content =
     (case map_of content ''concepts'' of
        None \<Rightarrow> Some ValueError
      | Some concepts \<Rightarrow>
          if \<not> is_list_or_str concepts then Some TypeError
          else if (case map_of content ''distance'' of
                     None \<Rightarrow> False | Some d \<Rightarrow> \<not> is_float d) then Some TypeError
          else
            (case (case map_of content ''moveTo'' of
                     None \<Rightarrow> None | Some m \<Rightarrow> check_direction_clause m) of
               Some e \<Rightarrow> Some e
             | None \<Rightarrow>
                 (case map_of content ''moveAwayFrom'' of
                    None \<Rightarrow> None | Some m \<Rightarrow> check_direction_clause m)))"

definition with_near_text :: "'f dict \<Rightarrow> 'f query \<Rightarrow> 'f error + 'f query" where
  "with_near_text content q =
     (case near_text q of
        Some n \<Rightarrow> Inl (Raised AttributeError)
      | None \<Rightarrow>
          (case check_near_text content of
             Some e \<Rightarrow> Inl (Raised e)
           | None \<Rightarrow> Inr (q\<lparr>near_text := Some (JDict content)\<rparr>)))"

definition with_limit :: "int \<Rightarrow> 'f query \<Rightarrow> 'f error + 'f query" where
  "with_limit k q = (if k < 1 then Inl (Raised ValueError) else Inr (q\<lparr>limit := Some k\<rparr>))"

definition output_fields :: "string list" where
  "output_fields = [''paper_id'', ''cosmos_object_id'', ''preprocessor_id'', ''topic'',
     ''doc_type'', ''text_content'']"

text \<open>
  The filter. \<^verbatim>\<open>where_filter\<close> is the dictionary
  \<^verbatim>\<open>{"operator": "And", "operands": []}\<close>; each \<^verbatim>\<open>append\<close> extends the list object that
  the dictionary holds under \<^verbatim>\<open>operands\<close>. The model follows that list through the four
  tests and builds the dictionary around it.
\<close>

definition equal_clause :: "string \<Rightarrow> string \<Rightarrow> 'f json" where
  "equal_clause path v = JDict
     [(''path'', JList [JStr path]), (''operator'', JStr ''Equal''), (''valueText'', JStr v)]"

definition contains_any_clause :: "string \<Rightarrow> string list \<Rightarrow> 'f json" where
  "contains_any_clause path vs = JDict
     [(''path'', JList [JStr path]), (''operator'', JStr ''ContainsAny''),
      (''valueText'', JList (map JStr vs))]"

definition where_operands ::
  "string option \<Rightarrow> string option \<Rightarrow> string option \<Rightarrow> string list option \<Rightarrow> 'f json list" where
  "where_operands topic_arg doc_type_arg preprocessor_id_arg paper_ids_arg =
     (let ops0 = [];
          ops1 = (case topic_arg of None \<Rightarrow> ops0
                  | Some t \<Rightarrow> ops0 @ [equal_clause ''topic'' t]);
          ops2 = (case doc_type_arg of None \<Rightarrow> ops1
                  | Some d \<Rightarrow> ops1 @ [equal_clause ''doc_type'' d]);
          ops3 = (case preprocessor_id_arg of None \<Rightarrow> ops2
                  | Some p \<Rightarrow> ops2 @ [equal_clause ''preprocessor_id'' p]);
          ops4 = (case paper_ids_arg of None \<Rightarrow> ops3
                  | Some ids \<Rightarrow> ops3 @ [contains_any_clause ''paper_id'' ids])
      in ops4)"

definition make_where_filter :: "'f json list \<Rightarrow> 'f json" where
  "make_where_filter ops = JDict [(''operator'', JStr ''And''), (''operands'', JList ops)]"

text \<open>Lines 132 to 176 of \<^verbatim>\<open>get_documents\<close>: the query with its filter, if any.\<close>

definition filtered_query ::
  "string option \<Rightarrow> string option \<Rightarrow> string option \<Rightarrow> string list option \<Rightarrow> 'f query" where
  "filtered_query topic_arg doc_type_arg preprocessor_id_arg paper_ids_arg =
     (let results = with_additional [''distance''] (query_get ''Passage'' output_fields);
          ops = where_operands topic_arg doc_type_arg preprocessor_id_arg paper_ids_arg
      in if ops \<noteq> [] then with_where (make_where_filter ops) results else results)"

text \<open>The semantic search: \<^verbatim>\<open>near_text_query\<close>, a dictionary filled key by key.\<close>

definition py_float :: "'f option \<Rightarrow> 'f json" where
  "py_float w = (case w of None \<Rightarrow> JNull | Some x \<Rightarrow> JFloat x)"

definition near_text_query ::
  "string \<Rightarrow> 'f option \<Rightarrow> string option \<Rightarrow> 'f option \<Rightarrow> string option \<Rightarrow> 'f option \<Rightarrow> 'f dict"
  where
  "near_text_query question distance_arg move_to move_to_weight move_away_from
       move_away_from_weight =
     (let n0 = [(''concepts'', JList [JStr question])];
          n1 = (case distance_arg of None \<Rightarrow> n0
                | Some d \<Rightarrow> dict_set n0 ''distance'' (JFloat d));
          n2 = (case move_to of None \<Rightarrow> n1
                | Some m \<Rightarrow> dict_set n1 ''moveTo''
                    (JDict [(''concepts'', JList [JStr m]), (''force'', py_float move_to_weight)]));
          n3 = (case move_away_from of None \<Rightarrow> n2
                | Some m \<Rightarrow> dict_set n2 ''moveAwayFrom''
                    (JDict [(''concepts'', JList [JStr m]),
                            (''force'', py_float move_away_from_weight)]))
      in n3)"

text \<open>
  Lines 122 to 203 of \<^verbatim>\<open>get_documents\<close>, short of \<^verbatim>\<open>do()\<close>: the query that is sent,
  or the exception of \<^verbatim>\<open>with_near_text\<close> or \<^verbatim>\<open>with_limit\<close>.
\<close>

definition get_documents_query ::
  "string \<Rightarrow> int \<Rightarrow> 'f option \<Rightarrow> string option \<Rightarrow> string option \<Rightarrow> string option \<Rightarrow>
   string list option \<Rightarrow> string option \<Rightarrow> 'f option \<Rightarrow> string option \<Rightarrow> 'f option \<Rightarrow>
   'f error + 'f query"
  where
  "get_documents_query question top_k distance_arg topic_arg doc_type_arg preprocessor_id_arg
       paper_ids_arg move_to move_to_weight move_away_from move_away_from_weight =
     (let results = filtered_query topic_arg doc_type_arg preprocessor_id_arg paper_ids_arg
      in case with_near_text
                (near_text_query question distance_arg move_to move_to_weight
                   move_away_from move_away_from_weight) results of
           Inl e \<Rightarrow> Inl e
         | Inr results \<Rightarrow> with_limit top_k results)"

text \<open>
  Lines 207 to 219: what \<^verbatim>\<open>get_documents\<close> makes of the dictionary that \<^verbatim>\<open>do()\<close>
  returned. \<open>str_of\<close> is Python's \<^verbatim>\<open>str\<close> of a dictionary, used in the 404 message.
\<close>

definition get_documents_results ::
  "(('f::zero) dict \<Rightarrow> string) \<Rightarrow> 'f dict \<Rightarrow> 'f error + 'f Document list" where
  "get_documents_results str_of results =
     (if dict_contains results ''errors'' then
        (case getitem (JDict results) ''errors'' of
           Inl e \<Rightarrow> Inl e
         | Inr errs \<Rightarrow> Inl (http_exception 500 errs))
      else if \<not> dict_contains results ''data'' then
        Inl (http_exception 404 (JStr (''No results found: '' @ str_of results)))
      else
        (case getitem (JDict results) ''data'' of Inl e \<Rightarrow> Inl e | Inr data \<Rightarrow>
        (case getitem data ''Get'' of Inl e \<Rightarrow> Inl e | Inr got \<Rightarrow>
        (case getitem got ''Passage'' of Inl e \<Rightarrow> Inl e | Inr passages \<Rightarrow>
          if \<not> truthy passages then
            Inl (http_exception 404 (JStr (''No results found: '' @ str_of results)))
          else
            (case py_len passages of Inl e \<Rightarrow> Inl e | Inr n \<Rightarrow>
            (case py_iter passages of Inl e \<Rightarrow> Inl e | Inr rs \<Rightarrow>
               comprehension to_document rs))))))"

text \<open>
  \<^verbatim>\<open>get_documents\<close>. The client is its \<^verbatim>\<open>do()\<close>, which sends the query to the database:
  it takes the query and the state of what lies outside the program (the database, the
  network, how many requests were made) and gives the response dictionary or an exception,
  and the state after the request. \<^verbatim>\<open>get_documents\<close> is given the state before the call
  and gives its result and the state after it.
\<close>

definition get_documents ::
  "(('f::zero) query \<Rightarrow> 's \<Rightarrow> ('f error + 'f dict) \<times> 's) \<Rightarrow> ('f dict \<Rightarrow> string) \<Rightarrow>
   string \<Rightarrow> int \<Rightarrow> 'f option \<Rightarrow> string option \<Rightarrow> string option \<Rightarrow> string option \<Rightarrow>
   string list option \<Rightarrow> string option \<Rightarrow> 'f option \<Rightarrow> string option \<Rightarrow> 'f option \<Rightarrow>
   's \<Rightarrow> ('f error + 'f Document list) \<times> 's" where
  "get_documents client str_of question top_k distance_arg topic_arg doc_type_arg
       preprocessor_id_arg paper_ids_arg move_to move_to_weight move_away_from
       move_away_from_weight s =
     (case get_documents_query question top_k distance_arg topic_arg doc_type_arg
             preprocessor_id_arg paper_ids_arg move_to move_to_weight move_away_from
             move_away_from_weight of
        Inl e \<Rightarrow> (Inl e, s)
      | Inr query \<Rightarrow>
          (case client query s of
             (Inl e, s') \<Rightarrow> (Inl e, s')
           | (Inr results, s') \<Rightarrow> (get_documents_results str_of results, s')))"

section \<open>The model wrappers: \<^verbatim>\<open>backend.py\<close>\<close>

subsection \<open>Chat completion\<close>

text \<open>
  The request that \<^verbatim>\<open>openai.ChatCompletion.create\<close> takes and the part of its response
  that the code reads, \<^verbatim>\<open>response.choices[0].message.content\<close>. The API itself is a
  parameter \<open>create\<close> of the functions that call it: it answers a request or raises.
\<close>

record message =
  role :: string
  content :: string

record choice =
  message :: message

record chat_response =
  choices :: "choice list"

record chat_request =
  model :: string
  messages :: "message list"

type_synonym chat_api = "chat_request \<Rightarrow> exn + chat_response"

definition first_content :: "chat_response \<Rightarrow> exn + string" where
  "first_content response =
     (case choices response of [] \<Rightarrow> Inl IndexError | c # cs \<Rightarrow> Inr (content (message c)))"

text \<open>\<^verbatim>\<open>_compress\<close> (an Isabelle name cannot start with an underscore).\<close>

definition priv_compress :: "chat_api \<Rightarrow> string \<Rightarrow> exn + string" where
  "priv_compress create chunk =
     (let instruction = ''Summarize the upcoming passage into key points precisely.'' in
      case create \<lparr>model = ''gpt-3.5-turbo'',
                    messages = [\<lparr>role = ''system'', content = instruction\<rparr>,
                                \<lparr>role = ''user'', content = chunk\<rparr>]\<rparr>
      of Inl e \<Rightarrow> Inl e | Inr response \<Rightarrow> first_content response)"

definition get_answer :: "chat_api \<Rightarrow> string \<Rightarrow> string \<Rightarrow> exn + string" where
  "get_answer create context question =
     (let instruction =
        ''Study the upcoming passage carefully and answer the questions that follows.'' in
      case create \<lparr>model = ''gpt-3.5-turbo'',
                    messages = [\<lparr>role = ''system'', content = instruction\<rparr>,
                                \<lparr>role = ''user'',
                                 content = context @ ''Do you understand the passage?''\<rparr>,
                                \<lparr>role = ''user'',
                                 content = question @
                                   '' Provide your answer in a precise and concise manner.''\<rparr>]\<rparr>
      of Inl e \<Rightarrow> Inl e | Inr response \<Rightarrow> first_content response)"

subsection \<open>The thread pool\<close>

text \<open>
  \<^verbatim>\<open>executor.map(fn, items)\<close> submits one task per item, in the order of the items, and
  each task has a future of its own. The workers of the pool run the tasks in an order
  that the code does not control: the schedule, a list of task numbers. A task that runs
  stores the result of \<open>fn\<close> on its item, a value or an exception, in its future.
  \<^verbatim>\<open>list(...)\<close> then takes the result of each future in the order of submission: it waits
  for a future that is not done (\<open>None\<close>: with a schedule that never runs the task, the
  call does not return) and raises the exception that a future holds. The tasks share
  nothing but the API, which answers each request by itself, so the model interleaves
  whole tasks.
\<close>

fun run_tasks :: "('a \<Rightarrow> 'r) \<Rightarrow> 'a list \<Rightarrow> nat list \<Rightarrow> 'r option list \<Rightarrow> 'r option list" where
  "run_tasks fn items [] futures = futures"
| "run_tasks fn items (i # schedule) futures =
     run_tasks fn items schedule
       (if i < length items then futures[i := Some (fn (items ! i))] else futures)"

fun results_in_order :: "('e + 'b) option list \<Rightarrow> ('e + 'b list) option" where
  "results_in_order [] = Some (Inr [])"
| "results_in_order (None # futures) = None"
| "results_in_order (Some (Inl e) # futures) = Some (Inl e)"
| "results_in_order (Some (Inr v) # futures) =
     (case results_in_order futures of
        None \<Rightarrow> None
      | Some (Inl e) \<Rightarrow> Some (Inl e)
      | Some (Inr vs) \<Rightarrow> Some (Inr (v # vs)))"

definition executor_map ::
  "nat list \<Rightarrow> ('a \<Rightarrow> 'e + 'b) \<Rightarrow> 'a list \<Rightarrow> ('e + 'b list) option" where
  "executor_map schedule fn items =
     results_in_order (run_tasks fn items schedule (replicate (length items) None))"

definition compress :: "chat_api \<Rightarrow> nat list \<Rightarrow> string list \<Rightarrow> (exn + string list) option" where
  "compress create schedule chunks = executor_map schedule (priv_compress create) chunks"

subsection \<open>Prompts of the local model\<close>

text \<open>\<^verbatim>\<open>sep.join(xs)\<close>.\<close>

fun join :: "string \<Rightarrow> string list \<Rightarrow> string" where
  "join sep [] = []"
| "join sep [x] = x"
| "join sep (x # y # ys) = x @ sep @ join sep (y # ys)"

text \<open>
  \<^verbatim>\<open>template.format(*args, **kwargs)\<close>. The scan of the template is Python's: text
  is copied, \<^verbatim>\<open>{{\<close> and \<^verbatim>\<open>}}\<close> stand for one brace, a single \<^verbatim>\<open>}\<close> and a \<^verbatim>\<open>{\<close>
  at the end raise \<^verbatim>\<open>ValueError\<close>, and any other \<^verbatim>\<open>{\<close> opens a replacement field. How a
  field is read and rendered from the arguments is the parameter \<open>field\<close>: it gets the
  number of fields rendered so far and the text after the opening brace, and returns the
  rendered text and how many characters the field took, its closing brace included, or
  raises.
\<close>

datatype fmt_value = Str string | StrList "string list"

record fmt_args =
  fmt_positional :: "fmt_value list"
  fmt_keywords :: "(string \<times> fmt_value) list"

type_synonym field_renderer = "fmt_args \<Rightarrow> nat \<Rightarrow> string \<Rightarrow> exn + string \<times> nat"

function format :: "(nat \<Rightarrow> string \<Rightarrow> exn + string \<times> nat) \<Rightarrow> nat \<Rightarrow> string \<Rightarrow> exn + string" where
  "format field k [] = Inr []"
| "format field k (c # s) =
     (if c = CHR ''{'' then
        (case s of
           [] \<Rightarrow> Inl ValueError
         | c' # s' \<Rightarrow>
             if c' = CHR ''{'' then
               (case format field k s' of Inl e \<Rightarrow> Inl e | Inr r \<Rightarrow> Inr (CHR ''{'' # r))
             else
               (case field k s of
                  Inl e \<Rightarrow> Inl e
                | Inr (rendered, n) \<Rightarrow>
                    (case format field (Suc k) (drop n s) of
                       Inl e \<Rightarrow> Inl e
                     | Inr r \<Rightarrow> Inr (rendered @ r))))
      else if c = CHR ''}'' then
        (case s of
           [] \<Rightarrow> Inl ValueError
         | c' # s' \<Rightarrow>
             if c' = CHR ''}'' then
               (case format field k s' of Inl e \<Rightarrow> Inl e | Inr r \<Rightarrow> Inr (CHR ''}'' # r))
             else Inl ValueError)
      else
        (case format field k s of Inl e \<Rightarrow> Inl e | Inr r \<Rightarrow> Inr (c # r)))"
  by pat_completeness auto
termination
  by (relation "measure (\<lambda>(field, k, s). length s)") auto

text \<open>
  \<^verbatim>\<open>_t5\<close> tokenizes its input and runs the pretrained model; it is the parameter \<open>t5\<close>,
  which gets the prompt and the keyword arguments passed on to it.
\<close>

type_synonym t5_model = "string \<Rightarrow> (string \<times> string) list \<Rightarrow> exn + string"

definition summarize ::
  "field_renderer \<Rightarrow> t5_model \<Rightarrow> string list \<Rightarrow> (string \<times> string) list \<Rightarrow> exn + string" where
  "summarize field t5 sentences kwargs =
     (let TEMPLATE = ''summarize: '' @ join ''.'' sentences in
      case format (field \<lparr>fmt_positional = [StrList sentences], fmt_keywords = []\<rparr>) 0 TEMPLATE of
        Inl e \<Rightarrow> Inl e
      | Inr x \<Rightarrow> t5 x kwargs)"

definition prompt_sum ::
  "field_renderer \<Rightarrow> t5_model \<Rightarrow> string \<Rightarrow> string \<Rightarrow> (string \<times> string) list \<Rightarrow> exn + string"
  where
  "prompt_sum field t5 text_arg question kwargs =
     (let TEMPLATE = ''Based on the following context answer this question: '' @ question @
                     '' Context: '' @ text_arg in
      case format (field \<lparr>fmt_positional = [],
                           fmt_keywords = [(''question'', Str question), (''article'', Str text_arg)]\<rparr>)
             0 TEMPLATE of
        Inl e \<Rightarrow> Inl e
      | Inr x \<Rightarrow> t5 x kwargs)"

subsection \<open>Dot score\<close>











section \<open>Properties of the retriever\<close>

subsection \<open>Exceptions\<close>





lemma comprehension_Inr:
  "comprehension f xs = Inr ys \<Longrightarrow>
     length ys = length xs \<and> (\<forall>i < length xs. f (xs ! i) = Inr (ys ! i))"
proof (induction xs arbitrary: ys)
  case Nil
  then show ?case by simp
next
  case (Cons x xs)
  from Cons.prems obtain y ys' where fx: "f x = Inr y" and rest: "comprehension f xs = Inr ys'"
    and ys: "ys = y # ys'"
    by (auto split: sum.splits)
  from Cons.IH[OF rest] have len: "length ys' = length xs"
    and nth: "\<forall>i < length xs. f (xs ! i) = Inr (ys' ! i)" by simp_all
  show ?case
  proof (intro conjI allI impI)
    show "length ys = length (x # xs)" using len ys by simp
  next
    fix i assume "i < length (x # xs)"
    then show "f ((x # xs) ! i) = Inr (ys ! i)"
      using fx nth ys by (cases i) simp_all
  qed
qed




lemma http_exception_500:
  "http_exception 500 errs =
     HTTPException 500 (if errs = JNull then JStr ''Internal Server Error'' else errs)"
  by (cases errs) (simp_all add: http_exception_def status_phrase_def)

lemma http_exception_404: "http_exception 404 (JStr m) = HTTPException 404 (JStr m)"
  by (simp add: http_exception_def)

lemma results_errors:
  "map_of results ''errors'' = Some errs \<Longrightarrow>
     get_documents_results str_of results = Inl (HTTPException 500 (if errs = JNull then JStr ''Internal Server Error'' else errs))"
  by (simp add: get_documents_results_def dict_contains_def http_exception_500)

lemma results_no_data:
  "map_of results ''errors'' = None \<Longrightarrow> map_of results ''data'' = None \<Longrightarrow>
     get_documents_results str_of results = Inl (HTTPException 404 (JStr (''No results found: '' @ str_of results)))"
  by (simp add: get_documents_results_def dict_contains_def http_exception_404)

lemma results_data:
  "map_of results ''errors'' = None \<Longrightarrow> map_of results ''data'' = Some data \<Longrightarrow>
     get_documents_results str_of results =
       (case getitem data ''Get'' of Inl e \<Rightarrow> Inl e | Inr got \<Rightarrow>
       (case getitem got ''Passage'' of Inl e \<Rightarrow> Inl e | Inr passages \<Rightarrow>
          if \<not> truthy passages then
            Inl (HTTPException 404 (JStr (''No results found: '' @ str_of results)))
          else
            (case py_len passages of Inl e \<Rightarrow> Inl e | Inr n \<Rightarrow>
            (case py_iter passages of Inl e \<Rightarrow> Inl e | Inr rs \<Rightarrow>
               comprehension to_document rs))))"
  unfolding get_documents_results_def http_exception_404
  by (simp add: dict_contains_def)




lemma get_documents_sent:
  "get_documents_query question top_k dist tp dt pp ids mt mtw maf mafw = Inr q \<Longrightarrow> client q s = (r, s1) \<Longrightarrow>
     get_documents client str_of question top_k dist tp dt pp ids mt mtw maf mafw s =
       ((case r of Inl e \<Rightarrow> Inl e | Inr results \<Rightarrow> get_documents_results str_of results), s1)"
  by (cases r) (simp_all add: get_documents_def)



subsection \<open>The query sent to the database\<close>

lemma check_near_text_query:
  "check_near_text (near_text_query question dist mt mtw maf mafw) =
     (if (mt \<noteq> None \<and> mtw = None) \<or> (maf \<noteq> None \<and> mafw = None) then Some TypeError
      else None)"
  by (cases dist; cases mt; cases mtw; cases maf; cases mafw)
     (simp_all add: near_text_query_def check_near_text_def py_float_def)

lemma filtered_query_open:
  "near_text (filtered_query tp dt pp ids) = None" "limit (filtered_query tp dt pp ids) = None"
  by (simp_all add: filtered_query_def Let_def with_where_def with_additional_def query_get_def)

lemma get_documents_query_eq:
  "get_documents_query question top_k dist tp dt pp ids mt mtw maf mafw =
     (if (mt \<noteq> None \<and> mtw = None) \<or> (maf \<noteq> None \<and> mafw = None) then Inl (Raised TypeError)
      else if top_k < 1 then Inl (Raised ValueError)
      else Inr ((filtered_query tp dt pp ids)
             \<lparr>near_text := Some (JDict (near_text_query question dist mt mtw maf mafw)),
              limit := Some top_k\<rparr>))"
  by (simp add: get_documents_query_def with_near_text_def filtered_query_open
      check_near_text_query with_limit_def)


text \<open>
  Claim C2. The query that \<^verbatim>\<open>get_documents\<close> builds in lines 132 to 176 has no
  \<^verbatim>\<open>where\<close> filter when \<^verbatim>\<open>topic\<close>, \<^verbatim>\<open>doc_type\<close>, \<^verbatim>\<open>preprocessor_id\<close> and
  \<^verbatim>\<open>paper_ids\<close> are all \<^verbatim>\<open>None\<close>. Otherwise its filter is the \<^verbatim>\<open>And\<close> of, in this order
  and with nothing else: an \<^verbatim>\<open>Equal\<close> clause on the path \<^verbatim>\<open>topic\<close>, \<^verbatim>\<open>doc_type\<close>,
  \<^verbatim>\<open>preprocessor_id\<close> for each of these arguments that is given, holding the argument as
  it is, and a \<^verbatim>\<open>ContainsAny\<close> clause on the path \<^verbatim>\<open>paper_id\<close> holding the list
  \<^verbatim>\<open>paper_ids\<close> when it is given. Every query that \<^verbatim>\<open>get_documents\<close> sends has this
  filter, and the client is called on that query, once.
\<close>

theorem get_documents_where_filter:
  "where_filter (filtered_query tp dt pp ids :: ('f::zero) query) =
     (if tp = None \<and> dt = None \<and> pp = None \<and> ids = None then None
      else Some (JDict
        [(''operator'', JStr ''And''),
         (''operands'', JList
           ((case tp of None \<Rightarrow> [] | Some t \<Rightarrow>
               [JDict [(''path'', JList [JStr ''topic'']), (''operator'', JStr ''Equal''),
                       (''valueText'', JStr t)]]) @
            (case dt of None \<Rightarrow> [] | Some d \<Rightarrow>
               [JDict [(''path'', JList [JStr ''doc_type'']), (''operator'', JStr ''Equal''),
                       (''valueText'', JStr d)]]) @
            (case pp of None \<Rightarrow> [] | Some p \<Rightarrow>
               [JDict [(''path'', JList [JStr ''preprocessor_id'']), (''operator'', JStr ''Equal''),
                       (''valueText'', JStr p)]]) @
            (case ids of None \<Rightarrow> [] | Some l \<Rightarrow>
               [JDict [(''path'', JList [JStr ''paper_id'']), (''operator'', JStr ''ContainsAny''),
                       (''valueText'', JList (map JStr l))]])))])) \<and>
   (\<forall>q. get_documents_query question top_k dist tp dt pp ids mt mtw maf mafw = Inr q \<longrightarrow>
      where_filter q = where_filter (filtered_query tp dt pp ids :: 'f query) \<and>
      get_documents client str_of question top_k dist tp dt pp ids mt mtw maf mafw s =
        (case client q s of
             (Inl e, s') \<Rightarrow> (Inl e, s')
           | (Inr results, s') \<Rightarrow> (get_documents_results str_of results, s')))"
proof (rule conjI)
  let ?ops = "where_operands tp dt pp ids :: 'f json list"
  have ops: "?ops =
      (case tp of None \<Rightarrow> [] | Some t \<Rightarrow> [equal_clause ''topic'' t]) @
      (case dt of None \<Rightarrow> [] | Some d \<Rightarrow> [equal_clause ''doc_type'' d]) @
      (case pp of None \<Rightarrow> [] | Some p \<Rightarrow> [equal_clause ''preprocessor_id'' p]) @
      (case ids of None \<Rightarrow> [] | Some l \<Rightarrow> [contains_any_clause ''paper_id'' l])"
    by (simp add: where_operands_def split: option.splits)
  have empty: "?ops = [] \<longleftrightarrow>
      tp = None \<and> dt = None \<and> pp = None \<and> ids = None"
    unfolding ops by (simp split: option.splits)
  have q: "where_filter (filtered_query tp dt pp ids :: 'f query) =
      (if ?ops = [] then None else Some (make_where_filter ?ops))"
    by (simp add: filtered_query_def Let_def with_where_def with_additional_def query_get_def)
  show "where_filter (filtered_query tp dt pp ids :: 'f query) =
     (if tp = None \<and> dt = None \<and> pp = None \<and> ids = None then None
      else Some (JDict
        [(''operator'', JStr ''And''),
         (''operands'', JList
           ((case tp of None \<Rightarrow> [] | Some t \<Rightarrow>
               [JDict [(''path'', JList [JStr ''topic'']), (''operator'', JStr ''Equal''),
                       (''valueText'', JStr t)]]) @
            (case dt of None \<Rightarrow> [] | Some d \<Rightarrow>
               [JDict [(''path'', JList [JStr ''doc_type'']), (''operator'', JStr ''Equal''),
                       (''valueText'', JStr d)]]) @
            (case pp of None \<Rightarrow> [] | Some p \<Rightarrow>
               [JDict [(''path'', JList [JStr ''preprocessor_id'']), (''operator'', JStr ''Equal''),
                       (''valueText'', JStr p)]]) @
            (case ids of None \<Rightarrow> [] | Some l \<Rightarrow>
               [JDict [(''path'', JList [JStr ''paper_id'']), (''operator'', JStr ''ContainsAny''),
                       (''valueText'', JList (map JStr l))]])))]))"
    unfolding q empty
    by (simp add: ops make_where_filter_def equal_clause_def contains_any_clause_def
        cong: option.case_cong)
next
  show "\<forall>q. get_documents_query question top_k dist tp dt pp ids mt mtw maf mafw = Inr q \<longrightarrow>
      where_filter q = where_filter (filtered_query tp dt pp ids :: 'f query) \<and>
      get_documents client str_of question top_k dist tp dt pp ids mt mtw maf mafw s =
        (case client q s of
             (Inl e, s') \<Rightarrow> (Inl e, s')
           | (Inr results, s') \<Rightarrow> (get_documents_results str_of results, s'))"
  proof (intro allI impI conjI)
    fix q :: "'f query"
    assume q: "get_documents_query question top_k dist tp dt pp ids mt mtw maf mafw = Inr q"
    then show "where_filter q = where_filter (filtered_query tp dt pp ids :: 'f query)"
      by (auto simp: get_documents_query_eq split: if_splits)
    from q show "get_documents client str_of question top_k dist tp dt pp ids mt mtw maf mafw s =
        (case client q s of
             (Inl e, s') \<Rightarrow> (Inl e, s')
           | (Inr results, s') \<Rightarrow> (get_documents_results str_of results, s'))"
      by (simp add: get_documents_def)
  qed
qed

theorem get_documents_where_filter_witness:
  "\<exists>q. get_documents_query ''masks'' 5 None (Some ''covid'') None None (Some [''p1'', ''p2''])
          None (Some (1::int)) None (Some 1) = Inr q \<and>
     where_filter q = Some (JDict
        [(''operator'', JStr ''And''),
         (''operands'', JList
            [JDict [(''path'', JList [JStr ''topic'']), (''operator'', JStr ''Equal''),
                    (''valueText'', JStr ''covid'')],
             JDict [(''path'', JList [JStr ''paper_id'']), (''operator'', JStr ''ContainsAny''),
                    (''valueText'', JList [JStr ''p1'', JStr ''p2''])]])])"
proof -
  have "\<exists>q. get_documents_query ''masks'' 5 None (Some ''covid'') None None (Some [''p1'', ''p2''])
          None (Some (1::int)) None (Some 1) = Inr q"
    by (simp add: get_documents_query_eq)
  then obtain q :: "int query"
    where q: "get_documents_query ''masks'' 5 None (Some ''covid'') None None
          (Some [''p1'', ''p2'']) None (Some (1::int)) None (Some 1) = Inr q" ..
  note T = get_documents_where_filter[where tp = "Some ''covid''" and dt = None and pp = None
      and ids = "Some [''p1'', ''p2'']" and question = "''masks''" and top_k = 5 and dist = None
      and mt = None and mtw = "Some (1::int)" and maf = None and mafw = "Some 1"]
  from T[THEN conjunct2, rule_format, OF q, THEN conjunct1] T[THEN conjunct1]
  have "where_filter q = Some (JDict
        [(''operator'', JStr ''And''),
         (''operands'', JList
            [JDict [(''path'', JList [JStr ''topic'']), (''operator'', JStr ''Equal''),
                    (''valueText'', JStr ''covid'')],
             JDict [(''path'', JList [JStr ''paper_id'']), (''operator'', JStr ''ContainsAny''),
                    (''valueText'', JList [JStr ''p1'', JStr ''p2''])]])])"
    by simp
  with q show ?thesis by blast
qed




subsection \<open>The documents returned\<close>

lemma bind_Inr:
  "(case m of Inl e \<Rightarrow> Inl e | Inr v \<Rightarrow> k v) = Inr y \<Longrightarrow> \<exists>v. m = Inr v \<and> k v = Inr y"
  by (cases m) auto

lemma to_document_Inr:
  assumes "to_document r = Inr d"
  shows "getitem r ''paper_id'' = Inr (paper_id d) \<and>
         getitem r ''topic'' = Inr (topic d) \<and>
         getitem r ''cosmos_object_id'' = Inr (cosmos_object_id d) \<and>
         getitem r ''doc_type'' = Inr (doc_type d) \<and>
         getitem r ''text_content'' = Inr (text d) \<and>
         (\<exists>a. getitem r ''_additional'' = Inr a \<and> getitem a ''distance'' = Inr (distance d))"
proof -
  from assms[unfolded to_document_def] obtain v1 where 1: "getitem r ''paper_id'' = Inr v1"
    and r1: "(case getitem r ''topic'' of Inl e \<Rightarrow> Inl e | Inr v2 \<Rightarrow>
     (case getitem r ''cosmos_object_id'' of Inl e \<Rightarrow> Inl e | Inr v3 \<Rightarrow>
     (case getitem r ''doc_type'' of Inl e \<Rightarrow> Inl e | Inr v4 \<Rightarrow>
     (case getitem r ''text_content'' of Inl e \<Rightarrow> Inl e | Inr v5 \<Rightarrow>
     (case getitem r ''_additional'' of Inl e \<Rightarrow> Inl e | Inr a \<Rightarrow>
     (case getitem a ''distance'' of Inl e \<Rightarrow> Inl e | Inr v6 \<Rightarrow>
        Inr \<lparr>paper_id = v1, topic = v2, cosmos_object_id = v3, doc_type = v4,
             text = v5, distance = v6\<rparr>)))))) = Inr d"
    by (blast dest: bind_Inr)
  from bind_Inr[OF r1] obtain v2 where 2: "getitem r ''topic'' = Inr v2"
    and r2: "(case getitem r ''cosmos_object_id'' of Inl e \<Rightarrow> Inl e | Inr v3 \<Rightarrow>
     (case getitem r ''doc_type'' of Inl e \<Rightarrow> Inl e | Inr v4 \<Rightarrow>
     (case getitem r ''text_content'' of Inl e \<Rightarrow> Inl e | Inr v5 \<Rightarrow>
     (case getitem r ''_additional'' of Inl e \<Rightarrow> Inl e | Inr a \<Rightarrow>
     (case getitem a ''distance'' of Inl e \<Rightarrow> Inl e | Inr v6 \<Rightarrow>
        Inr \<lparr>paper_id = v1, topic = v2, cosmos_object_id = v3, doc_type = v4,
             text = v5, distance = v6\<rparr>))))) = Inr d"
    by blast
  from bind_Inr[OF r2] obtain v3 where 3: "getitem r ''cosmos_object_id'' = Inr v3"
    and r3: "(case getitem r ''doc_type'' of Inl e \<Rightarrow> Inl e | Inr v4 \<Rightarrow>
     (case getitem r ''text_content'' of Inl e \<Rightarrow> Inl e | Inr v5 \<Rightarrow>
     (case getitem r ''_additional'' of Inl e \<Rightarrow> Inl e | Inr a \<Rightarrow>
     (case getitem a ''distance'' of Inl e \<Rightarrow> Inl e | Inr v6 \<Rightarrow>
        Inr \<lparr>paper_id = v1, topic = v2, cosmos_object_id = v3, doc_type = v4,
             text = v5, distance = v6\<rparr>)))) = Inr d"
    by blast
  from bind_Inr[OF r3] obtain v4 where 4: "getitem r ''doc_type'' = Inr v4"
    and r4: "(case getitem r ''text_content'' of Inl e \<Rightarrow> Inl e | Inr v5 \<Rightarrow>
     (case getitem r ''_additional'' of Inl e \<Rightarrow> Inl e | Inr a \<Rightarrow>
     (case getitem a ''distance'' of Inl e \<Rightarrow> Inl e | Inr v6 \<Rightarrow>
        Inr \<lparr>paper_id = v1, topic = v2, cosmos_object_id = v3, doc_type = v4,
             text = v5, distance = v6\<rparr>))) = Inr d"
    by blast
  from bind_Inr[OF r4] obtain v5 where 5: "getitem r ''text_content'' = Inr v5"
    and r5: "(case getitem r ''_additional'' of Inl e \<Rightarrow> Inl e | Inr a \<Rightarrow>
     (case getitem a ''distance'' of Inl e \<Rightarrow> Inl e | Inr v6 \<Rightarrow>
        Inr \<lparr>paper_id = v1, topic = v2, cosmos_object_id = v3, doc_type = v4,
             text = v5, distance = v6\<rparr>)) = Inr d"
    by blast
  from bind_Inr[OF r5] obtain a where 6: "getitem r ''_additional'' = Inr a"
    and r6: "(case getitem a ''distance'' of Inl e \<Rightarrow> Inl e | Inr v6 \<Rightarrow>
        Inr \<lparr>paper_id = v1, topic = v2, cosmos_object_id = v3, doc_type = v4,
             text = v5, distance = v6\<rparr>) = Inr d"
    by blast
  from bind_Inr[OF r6] obtain v6 where 7: "getitem a ''distance'' = Inr v6"
    and d: "d = \<lparr>paper_id = v1, topic = v2, cosmos_object_id = v3, doc_type = v4,
             text = v5, distance = v6\<rparr>"
    by auto
  show ?thesis using 1 2 3 4 5 6 7 d by simp
qed


lemma comprehension_Inr_nth:
  "comprehension f xs = Inr ys \<Longrightarrow> i < length xs \<Longrightarrow> f (xs ! i) = Inr (ys ! i)"
  using comprehension_Inr[of f xs ys] by simp

lemma results_Inr:
  assumes "get_documents_results str_of results = Inr docs"
  shows "\<exists>data got passages. map_of results ''errors'' = None \<and>
           map_of results ''data'' = Some data \<and>
           getitem data ''Get'' = Inr got \<and> getitem got ''Passage'' = Inr (JList passages) \<and>
           passages \<noteq> [] \<and> comprehension to_document passages = Inr docs"
proof -
  from assms have ne: "map_of results ''errors'' = None"
    by (cases "map_of results ''errors''") (simp_all add: results_errors)
  with assms obtain data where da: "map_of results ''data'' = Some data"
    by (cases "map_of results ''data''") (simp_all add: results_no_data)
  note main = assms[unfolded results_data[OF ne da, of str_of]]
  from bind_Inr[OF main] obtain got where g: "getitem data ''Get'' = Inr got"
    and m1: "(case getitem got ''Passage'' of Inl e \<Rightarrow> Inl e | Inr passages \<Rightarrow>
          if \<not> truthy passages then
            Inl (HTTPException 404 (JStr (''No results found: '' @ str_of results)))
          else
            (case py_len passages of Inl e \<Rightarrow> Inl e | Inr n \<Rightarrow>
            (case py_iter passages of Inl e \<Rightarrow> Inl e | Inr rs \<Rightarrow>
               comprehension to_document rs))) = Inr docs"
    by blast
  from bind_Inr[OF m1] obtain p where p: "getitem got ''Passage'' = Inr p"
    and m2: "(if \<not> truthy p then
            Inl (HTTPException 404 (JStr (''No results found: '' @ str_of results)))
          else
            (case py_len p of Inl e \<Rightarrow> Inl e | Inr n \<Rightarrow>
            (case py_iter p of Inl e \<Rightarrow> Inl e | Inr rs \<Rightarrow>
               comprehension to_document rs))) = Inr docs"
    by blast
  from m2 have tr: "truthy p"
    and m3: "(case py_len p of Inl e \<Rightarrow> Inl e | Inr n \<Rightarrow>
            (case py_iter p of Inl e \<Rightarrow> Inl e | Inr rs \<Rightarrow>
               comprehension to_document rs)) = Inr docs"
    by (simp_all split: if_splits)
  from bind_Inr[OF m3] obtain n where "py_len p = Inr n"
    and m4: "(case py_iter p of Inl e \<Rightarrow> Inl e | Inr rs \<Rightarrow>
               comprehension to_document rs) = Inr docs"
    by blast
  from bind_Inr[OF m4] obtain rs where it: "py_iter p = Inr rs"
    and c: "comprehension to_document rs = Inr docs"
    by blast
  have "\<exists>passages. p = JList passages \<and> passages \<noteq> [] \<and> rs = passages"
  proof (cases p)
    case (JList xs)
    with it tr show ?thesis by simp
  next
    case (JDict d)
    with tr obtain kv d' where d: "d = kv # d'" by (cases d) auto
    with JDict it have "rs = JStr (fst kv) # map (\<lambda>kv. JStr (fst kv)) d'" by simp
    with c have False by (simp add: to_document_def)
    then show ?thesis ..
  next
    case (JStr s)
    with tr obtain ch s' where d: "s = ch # s'" by (cases s) auto
    with JStr it have "rs = JStr [ch] # map (\<lambda>c. JStr [c]) s'" by simp
    with c have False by (simp add: to_document_def)
    then show ?thesis ..
  qed (use it in simp_all)
  with ne da g p c show ?thesis by blast
qed

text \<open>
  Claim C4. When \<^verbatim>\<open>get_documents\<close> returns a list of documents, the query was built and
  the client returned a response to it whose \<^verbatim>\<open>results["data"]["Get"]["Passage"]\<close> is a
  list of the same length, and the document at each position has the values that the
  passage at that position holds under \<^verbatim>\<open>paper_id\<close>, \<^verbatim>\<open>topic\<close>, \<^verbatim>\<open>cosmos_object_id\<close>,
  \<^verbatim>\<open>doc_type\<close>, \<^verbatim>\<open>text_content\<close> (as \<^verbatim>\<open>text\<close>) and \<^verbatim>\<open>_additional.distance\<close> (as
  \<^verbatim>\<open>distance\<close>).
\<close>

theorem get_documents_one_document_per_passage:
  assumes "get_documents client str_of question top_k dist tp dt pp ids mt mtw maf mafw s = (Inr docs, s')"
  shows "\<exists>q results data got passages.
     get_documents_query question top_k dist tp dt pp ids mt mtw maf mafw = Inr q \<and>
     client q s = (Inr results, s') \<and>
     getitem (JDict results) ''data'' = Inr data \<and> getitem data ''Get'' = Inr got \<and>
     getitem got ''Passage'' = Inr (JList passages) \<and>
     length docs = length passages \<and>
     (\<forall>i < length passages.
        getitem (passages ! i) ''paper_id'' = Inr (paper_id (docs ! i)) \<and>
        getitem (passages ! i) ''topic'' = Inr (topic (docs ! i)) \<and>
        getitem (passages ! i) ''cosmos_object_id'' = Inr (cosmos_object_id (docs ! i)) \<and>
        getitem (passages ! i) ''doc_type'' = Inr (doc_type (docs ! i)) \<and>
        getitem (passages ! i) ''text_content'' = Inr (text (docs ! i)) \<and>
        (\<exists>a. getitem (passages ! i) ''_additional'' = Inr a \<and>
             getitem a ''distance'' = Inr (distance (docs ! i))))"
proof -
  obtain q where q: "get_documents_query question top_k dist tp dt pp ids mt mtw maf mafw = Inr q"
    using assms
    by (cases "get_documents_query question top_k dist tp dt pp ids mt mtw maf mafw")
       (simp_all add: get_documents_def)
  obtain r s1 where sent: "client q s = (r, s1)" by (cases "client q s")
  from get_documents_sent[where client = client and s = s and str_of = str_of, OF q sent] assms
  have out: "(case r of Inl e \<Rightarrow> Inl e
              | Inr results \<Rightarrow> get_documents_results str_of results) = Inr docs"
    and st: "s1 = s'" by simp_all
  from bind_Inr[OF out] obtain results
    where r: "r = Inr results" and res: "get_documents_results str_of results = Inr docs"
    by blast
  from results_Inr[OF res] obtain data got passages
    where da: "map_of results ''data'' = Some data" and g: "getitem data ''Get'' = Inr got"
      and p: "getitem got ''Passage'' = Inr (JList passages)"
      and c: "comprehension to_document passages = Inr docs"
    by blast
  from comprehension_Inr[OF c] have len: "length docs = length passages" by simp
  have each: "\<forall>i < length passages.
        getitem (passages ! i) ''paper_id'' = Inr (paper_id (docs ! i)) \<and>
        getitem (passages ! i) ''topic'' = Inr (topic (docs ! i)) \<and>
        getitem (passages ! i) ''cosmos_object_id'' = Inr (cosmos_object_id (docs ! i)) \<and>
        getitem (passages ! i) ''doc_type'' = Inr (doc_type (docs ! i)) \<and>
        getitem (passages ! i) ''text_content'' = Inr (text (docs ! i)) \<and>
        (\<exists>a. getitem (passages ! i) ''_additional'' = Inr a \<and>
             getitem a ''distance'' = Inr (distance (docs ! i)))"
  proof (intro allI impI)
    fix i assume "i < length passages"
    from to_document_Inr[OF comprehension_Inr_nth[OF c this]]
    show "getitem (passages ! i) ''paper_id'' = Inr (paper_id (docs ! i)) \<and>
        getitem (passages ! i) ''topic'' = Inr (topic (docs ! i)) \<and>
        getitem (passages ! i) ''cosmos_object_id'' = Inr (cosmos_object_id (docs ! i)) \<and>
        getitem (passages ! i) ''doc_type'' = Inr (doc_type (docs ! i)) \<and>
        getitem (passages ! i) ''text_content'' = Inr (text (docs ! i)) \<and>
        (\<exists>a. getitem (passages ! i) ''_additional'' = Inr a \<and>
             getitem a ''distance'' = Inr (distance (docs ! i)))" .
  qed
  from da have d: "getitem (JDict results) ''data'' = Inr data" by simp
  from sent r st have "client q s = (Inr results, s')" by simp
  with q d g p len each show ?thesis by blast
qed

theorem get_documents_one_document_per_passage_witness:
  "get_documents
       (\<lambda>q n. (Inr [(''data'', JDict [(''Get'', JDict [(''Passage'', JList
           [JDict [(''paper_id'', JStr ''p1''), (''cosmos_object_id'', JStr ''c1''),
               (''preprocessor_id'', JStr ''h2''), (''topic'', JStr ''covid''),
               (''doc_type'', JStr ''figure''), (''text_content'', JStr ''Masks work.''),
               (''_additional'', JDict [(''distance'', JFloat (3::int))])]])])])], Suc n))
       (\<lambda>d. ''{}'') ''masks'' 5 None None None None None None (Some 1) None (Some 1) (0::nat)
     = (Inr [\<lparr>paper_id = JStr ''p1'', topic = JStr ''covid'', cosmos_object_id = JStr ''c1'',
           doc_type = JStr ''figure'', text = JStr ''Masks work.'', distance = JFloat (3::int)\<rparr>], Suc 0) \<and>
   (\<exists>(results :: int dict) data got passages.
      getitem (JDict results) ''data'' = Inr data \<and> getitem data ''Get'' = Inr got \<and>
      getitem got ''Passage'' = Inr (JList passages) \<and>
      length passages = 1 \<and>
      getitem (passages ! 0) ''paper_id'' = Inr (JStr ''p1'') \<and>
      getitem (passages ! 0) ''topic'' = Inr (JStr ''covid'') \<and>
      getitem (passages ! 0) ''cosmos_object_id'' = Inr (JStr ''c1'') \<and>
      getitem (passages ! 0) ''doc_type'' = Inr (JStr ''figure'') \<and>
      getitem (passages ! 0) ''text_content'' = Inr (JStr ''Masks work.'') \<and>
      (\<exists>a. getitem (passages ! 0) ''_additional'' = Inr a \<and>
           getitem a ''distance'' = Inr (JFloat 3)))"
proof -
  let ?docs = "[\<lparr>paper_id = JStr ''p1'', topic = JStr ''covid'', cosmos_object_id = JStr ''c1'',
           doc_type = JStr ''figure'', text = JStr ''Masks work.'', distance = JFloat (3::int)\<rparr>]"
  have h: "get_documents
       (\<lambda>q n. (Inr [(''data'', JDict [(''Get'', JDict [(''Passage'', JList
           [JDict [(''paper_id'', JStr ''p1''), (''cosmos_object_id'', JStr ''c1''),
               (''preprocessor_id'', JStr ''h2''), (''topic'', JStr ''covid''),
               (''doc_type'', JStr ''figure''), (''text_content'', JStr ''Masks work.''),
               (''_additional'', JDict [(''distance'', JFloat (3::int))])]])])])], Suc n))
       (\<lambda>d. ''{}'') ''masks'' 5 None None None None None None (Some 1) None (Some 1) (0::nat)
     = (Inr ?docs, Suc 0)"
    by (simp add: get_documents_def get_documents_query_eq get_documents_results_def
        dict_contains_def to_document_def)
  from get_documents_one_document_per_passage[OF h]
  obtain results :: "int dict" and data got passages
    where p: "getitem (JDict results) ''data'' = Inr data" "getitem data ''Get'' = Inr got"
        "getitem got ''Passage'' = Inr (JList passages)"
      and len: "length ?docs = length passages"
      and each: "\<forall>i < length passages.
        getitem (passages ! i) ''paper_id'' = Inr (paper_id (?docs ! i)) \<and>
        getitem (passages ! i) ''topic'' = Inr (topic (?docs ! i)) \<and>
        getitem (passages ! i) ''cosmos_object_id'' = Inr (cosmos_object_id (?docs ! i)) \<and>
        getitem (passages ! i) ''doc_type'' = Inr (doc_type (?docs ! i)) \<and>
        getitem (passages ! i) ''text_content'' = Inr (text (?docs ! i)) \<and>
        (\<exists>a. getitem (passages ! i) ''_additional'' = Inr a \<and>
             getitem a ''distance'' = Inr (distance (?docs ! i)))"
    by (elim exE conjE) (rule that; assumption)
  from len have l1: "length passages = 1" by simp
  then have "0 < length passages" by simp
  from each[rule_format, OF this]
  have e0: "getitem (passages ! 0) ''paper_id'' = Inr (JStr ''p1'') \<and>
      getitem (passages ! 0) ''topic'' = Inr (JStr ''covid'') \<and>
      getitem (passages ! 0) ''cosmos_object_id'' = Inr (JStr ''c1'') \<and>
      getitem (passages ! 0) ''doc_type'' = Inr (JStr ''figure'') \<and>
      getitem (passages ! 0) ''text_content'' = Inr (JStr ''Masks work.'') \<and>
      (\<exists>a. getitem (passages ! 0) ''_additional'' = Inr a \<and>
           getitem a ''distance'' = Inr (JFloat 3))"
    by simp
  from p l1 e0 have "\<exists>(results :: int dict) data got passages.
      getitem (JDict results) ''data'' = Inr data \<and> getitem data ''Get'' = Inr got \<and>
      getitem got ''Passage'' = Inr (JList passages) \<and>
      length passages = 1 \<and>
      getitem (passages ! 0) ''paper_id'' = Inr (JStr ''p1'') \<and>
      getitem (passages ! 0) ''topic'' = Inr (JStr ''covid'') \<and>
      getitem (passages ! 0) ''cosmos_object_id'' = Inr (JStr ''c1'') \<and>
      getitem (passages ! 0) ''doc_type'' = Inr (JStr ''figure'') \<and>
      getitem (passages ! 0) ''text_content'' = Inr (JStr ''Masks work.'') \<and>
      (\<exists>a. getitem (passages ! 0) ''_additional'' = Inr a \<and>
           getitem a ''distance'' = Inr (JFloat 3))"
    by - (rule exI, rule exI, rule exI, rule exI, (rule conjI, assumption)+, assumption)
  with h show ?thesis by (rule conjI)
qed

subsection \<open>The schema and the fields of a passage\<close>

text \<open>
  Claim C6 says that every name in \<^verbatim>\<open>output_fields\<close> and every field that
  \<^verbatim>\<open>to_document\<close> reads is a property of the schema of \<^verbatim>\<open>get_schema\<close>, which
  \<^verbatim>\<open>init_retriever\<close> creates. The code does otherwise: the schema declares
  \<^verbatim>\<open>topic_list\<close> and no \<^verbatim>\<open>topic\<close>, so \<^verbatim>\<open>topic\<close> is the one requested name that is not
  declared, and \<^verbatim>\<open>to_document\<close> raises \<^verbatim>\<open>KeyError\<close> on a passage that holds every declared
  property and the distance.
\<close>

theorem topic_requested_but_not_declared:
  "declared_properties (get_schema ''Passage'' :: 'f json) =
     [''paper_id'', ''preprocessor_id'', ''doc_type'', ''cosmos_object_id'', ''topic_list'',
      ''hashed_text'', ''text_content''] \<and>
   filter (\<lambda>f. f \<notin> set (declared_properties (get_schema ''Passage'' :: 'f json))) output_fields
     = [''topic''] \<and>
   init_retriever (db :: 'f json list) = db @ [get_schema ''Passage''] \<and>
   to_document (JDict
      [(''paper_id'', JStr ''p1''), (''preprocessor_id'', JStr ''h2''),
       (''doc_type'', JStr ''figure''), (''cosmos_object_id'', JStr ''c1''),
       (''topic_list'', JList [JStr ''covid'']), (''hashed_text'', JStr ''9f''),
       (''text_content'', JStr ''Masks work.''),
       (''_additional'', JDict [(''distance'', JFloat (x :: 'f))])])
     = Inl (Raised (KeyError ''topic''))"
proof -
  have d: "declared_properties (get_schema ''Passage'' :: 'f json) =
     [''paper_id'', ''preprocessor_id'', ''doc_type'', ''cosmos_object_id'', ''topic_list'',
      ''hashed_text'', ''text_content'']"
    by (simp add: get_schema_def skip_vectorizer_def)
  show ?thesis
    unfolding d by (simp add: output_fields_def init_retriever_def to_document_def)
qed

section \<open>Properties of the model wrappers\<close>

subsection \<open>The thread pool keeps the order\<close>

lemma run_tasks_length:
  "length (run_tasks fn items schedule futures) = length futures"
  by (induction schedule arbitrary: futures) simp_all

lemma run_tasks_nth:
  "length futures = length items \<Longrightarrow> i < length items \<Longrightarrow>
     run_tasks fn items schedule futures ! i =
       (if i \<in> set schedule then Some (fn (items ! i)) else futures ! i)"
proof (induction schedule arbitrary: futures)
  case Nil
  then show ?case by simp
next
  case (Cons j schedule)
  let ?fs = "if j < length items then futures[j := Some (fn (items ! j))] else futures"
  have len: "length ?fs = length items" using Cons.prems(1) by simp
  have "run_tasks fn items (j # schedule) futures ! i = run_tasks fn items schedule ?fs ! i"
    by simp
  also have "\<dots> = (if i \<in> set schedule then Some (fn (items ! i)) else ?fs ! i)"
    using Cons.IH[OF len Cons.prems(2)] .
  also have "\<dots> = (if i \<in> set (j # schedule) then Some (fn (items ! i)) else futures ! i)"
    using Cons.prems by (auto simp: nth_list_update)
  finally show ?case .
qed

lemma run_tasks_all:
  assumes "\<forall>i < length items. i \<in> set schedule"
  shows "run_tasks fn items schedule (replicate (length items) None) =
           map (\<lambda>x. Some (fn x)) items"
proof (rule nth_equalityI)
  show "length (run_tasks fn items schedule (replicate (length items) None)) =
          length (map (\<lambda>x. Some (fn x)) items)"
    by (simp add: run_tasks_length)
next
  fix i assume "i < length (run_tasks fn items schedule (replicate (length items) None))"
  then have i: "i < length items" by (simp add: run_tasks_length)
  with assms have "i \<in> set schedule" by simp
  with run_tasks_nth[of "replicate (length items) None" items i fn schedule] i
  show "run_tasks fn items schedule (replicate (length items) None) ! i =
          map (\<lambda>x. Some (fn x)) items ! i"
    by simp
qed

lemma results_in_order_done:
  "results_in_order (map (\<lambda>x. Some (fn x)) items) = Some (comprehension fn items)"
proof (induction items)
  case Nil
  then show ?case by simp
next
  case (Cons x items)
  then show ?case by (cases "fn x"; cases "comprehension fn items") simp_all
qed

text \<open>
  Claim C5. With the API answering each request by itself, and whatever the order in which
  the pool runs the tasks, as long as it runs every one of them: \<^verbatim>\<open>compress(chunks)\<close>
  returns, and it is what \<^verbatim>\<open>_compress\<close> mapped over the chunks one after the other is,
  an exception included. So a list that it returns has the length of \<^verbatim>\<open>chunks\<close> and at
  each position the result of \<^verbatim>\<open>_compress\<close> on the chunk at that position.
\<close>

theorem compress_is_sequential_map:
  assumes "\<forall>i < length chunks. i \<in> set schedule"
  shows "compress create schedule chunks = Some (comprehension (priv_compress create) chunks) \<and>
    (\<forall>results. compress create schedule chunks = Some (Inr results) \<longrightarrow>
       length results = length chunks \<and>
       (\<forall>i < length chunks. priv_compress create (chunks ! i) = Inr (results ! i)))"
proof -
  have eq: "compress create schedule chunks = Some (comprehension (priv_compress create) chunks)"
    by (simp add: compress_def executor_map_def run_tasks_all[OF assms] results_in_order_done)
  moreover have "\<forall>results. compress create schedule chunks = Some (Inr results) \<longrightarrow>
       length results = length chunks \<and>
       (\<forall>i < length chunks. priv_compress create (chunks ! i) = Inr (results ! i))"
    unfolding eq using comprehension_Inr[of "priv_compress create" chunks] by simp
  ultimately show ?thesis by (rule conjI)
qed


theorem compress_is_sequential_map_witness:
  "compress (\<lambda>req. Inr \<lparr>choices = [\<lparr>message = \<lparr>role = ''assistant'',
                 content = content (last (messages req))\<rparr>\<rparr>]\<rparr>) [1, 0] [''ab'', ''cd'']
     = Some (Inr [''ab'', ''cd''])"
proof -
  have sched: "\<forall>i < length [''ab'', ''cd'']. i \<in> set [1, 0 :: nat]"
    by (simp add: less_Suc_eq)
  from conjunct1[OF compress_is_sequential_map[OF sched]]
  show ?thesis
    by (simp add: priv_compress_def first_content_def)
qed

subsection \<open>The question sent to the chat model\<close>

text \<open>
  Claim C9. For every context and question there is one request, to the model
  \<^verbatim>\<open>gpt-3.5-turbo\<close> and with exactly three messages (the fixed system instruction, the user
  message \<^verbatim>\<open>context + "Do you understand the passage?"\<close> and the user message
  \<^verbatim>\<open>question + " Provide your answer in a precise and concise manner."\<close>), such that
  whatever the API is, \<^verbatim>\<open>get_answer\<close> is decided by what the API answers to that
  request: its exception is raised, a response without choices raises \<^verbatim>\<open>IndexError\<close>, and
  otherwise the content of the message of the first choice is returned as it is.
\<close>

theorem get_answer_request:
  "\<exists>req. model req = ''gpt-3.5-turbo'' \<and>
     messages req =
       [\<lparr>role = ''system'',
         content = ''Study the upcoming passage carefully and answer the questions that follows.''\<rparr>,
        \<lparr>role = ''user'', content = context @ ''Do you understand the passage?''\<rparr>,
        \<lparr>role = ''user'',
         content = question @ '' Provide your answer in a precise and concise manner.''\<rparr>] \<and>
     (\<forall>create e. create req = Inl e \<longrightarrow> get_answer create context question = Inl e) \<and>
     (\<forall>create response. create req = Inr response \<and> choices response = [] \<longrightarrow>
        get_answer create context question = Inl IndexError) \<and>
     (\<forall>create response c cs. create req = Inr response \<and> choices response = c # cs \<longrightarrow>
        get_answer create context question = Inr (content (message c)))"
  by (rule exI[where x = "\<lparr>model = ''gpt-3.5-turbo'',
       messages =
       [\<lparr>role = ''system'',
         content = ''Study the upcoming passage carefully and answer the questions that follows.''\<rparr>,
        \<lparr>role = ''user'', content = context @ ''Do you understand the passage?''\<rparr>,
        \<lparr>role = ''user'',
         content = question @ '' Provide your answer in a precise and concise manner.''\<rparr>]\<rparr>"])
    (simp add: get_answer_def first_content_def)


theorem get_answer_request_witness:
  "get_answer (\<lambda>req. Inr \<lparr>choices = [\<lparr>message = \<lparr>role = ''assistant'', content = ''42''\<rparr>\<rparr>]\<rparr>)
       ''The passage. '' ''What is six times seven?'' = Inr ''42'' \<and>
   get_answer (\<lambda>req. Inr \<lparr>choices = []\<rparr>)
       ''The passage. '' ''What is six times seven?'' = Inl IndexError \<and>
   get_answer (\<lambda>req. Inl (External ''RateLimitError''))
       ''The passage. '' ''What is six times seven?'' = Inl (External ''RateLimitError'')"
proof -
  from get_answer_request[of "''The passage. ''" "''What is six times seven?''"]
  obtain req
    where raised: "\<forall>create e. create req = Inl e \<longrightarrow>
        get_answer create ''The passage. '' ''What is six times seven?'' = Inl e"
      and none: "\<forall>create response. create req = Inr response \<and> choices response = [] \<longrightarrow>
        get_answer create ''The passage. '' ''What is six times seven?'' = Inl IndexError"
      and first: "\<forall>create response c cs. create req = Inr response \<and> choices response = c # cs \<longrightarrow>
        get_answer create ''The passage. '' ''What is six times seven?'' = Inr (content (message c))"
    by (elim exE conjE) (rule that; assumption)
  from first[rule_format,
      of "\<lambda>req. Inr \<lparr>choices = [\<lparr>message = \<lparr>role = ''assistant'', content = ''42''\<rparr>\<rparr>]\<rparr>"
         "\<lparr>choices = [\<lparr>message = \<lparr>role = ''assistant'', content = ''42''\<rparr>\<rparr>]\<rparr>"
         "\<lparr>message = \<lparr>role = ''assistant'', content = ''42''\<rparr>\<rparr>" "[]"]
  have a: "get_answer (\<lambda>req. Inr \<lparr>choices = [\<lparr>message = \<lparr>role = ''assistant'', content = ''42''\<rparr>\<rparr>]\<rparr>)
       ''The passage. '' ''What is six times seven?'' = Inr ''42''"
    by simp
  from none[rule_format, of "\<lambda>req. Inr \<lparr>choices = []\<rparr>" "\<lparr>choices = []\<rparr>"]
  have b: "get_answer (\<lambda>req. Inr \<lparr>choices = []\<rparr>)
       ''The passage. '' ''What is six times seven?'' = Inl IndexError"
    by simp
  from raised[rule_format, of "\<lambda>req. Inl (External ''RateLimitError'')" "External ''RateLimitError''"]
  have c: "get_answer (\<lambda>req. Inl (External ''RateLimitError''))
       ''The passage. '' ''What is six times seven?'' = Inl (External ''RateLimitError'')"
    by simp
  from a b c show ?thesis by (intro conjI)
qed

subsection \<open>Prompts without braces\<close>

lemma format_no_braces:
  "CHR ''{'' \<notin> set s \<Longrightarrow> CHR ''}'' \<notin> set s \<Longrightarrow> format field k s = Inr s"
  by (induction s) auto

lemma set_join: "set (join sep xs) \<subseteq> set sep \<union> (\<Union>x \<in> set xs. set x)"
  by (induction sep xs rule: join.induct) auto


lemma join_no_braces:
  assumes "\<And>s. s \<in> set sentences \<Longrightarrow> c \<notin> set s" and "c \<notin> set sep"
  shows "c \<notin> set (join sep sentences)"
  using assms set_join[of sep sentences] by auto

text \<open>
  Claim C7. When no sentence contains \<^verbatim>\<open>{\<close> or \<^verbatim>\<open>}\<close>, whatever the list of sentences
  (the empty one too), however replacement fields are rendered and whatever the model is,
  \<^verbatim>\<open>summarize\<close> is the model on exactly \<^verbatim>\<open>"summarize: "\<close> followed by the sentences
  joined with \<^verbatim>\<open>"."\<close>: the \<^verbatim>\<open>format\<close> call changes nothing. Likewise, when neither the
  question nor the text contains a brace, \<^verbatim>\<open>prompt_sum\<close> is the model on exactly
  \<^verbatim>\<open>"Based on the following context answer this question: " + question + " Context: " + text\<close>.
\<close>

theorem prompts_without_braces:
  "((\<forall>s \<in> set sentences. CHR ''{'' \<notin> set s \<and> CHR ''}'' \<notin> set s) \<longrightarrow>
      summarize field t5 sentences kwargs = t5 (''summarize: '' @ join ''.'' sentences) kwargs) \<and>
   (CHR ''{'' \<notin> set question \<and> CHR ''}'' \<notin> set question \<and>
    CHR ''{'' \<notin> set text_arg \<and> CHR ''}'' \<notin> set text_arg \<longrightarrow>
      prompt_sum field t5 text_arg question kwargs =
        t5 (''Based on the following context answer this question: '' @ question @
            '' Context: '' @ text_arg) kwargs)"
proof (intro conjI impI)
  assume b: "\<forall>s \<in> set sentences. CHR ''{'' \<notin> set s \<and> CHR ''}'' \<notin> set s"
  have "CHR ''{'' \<notin> set (join ''.'' sentences)"
    by (rule join_no_braces) (use b in simp_all)
  moreover have "CHR ''}'' \<notin> set (join ''.'' sentences)"
    by (rule join_no_braces) (use b in simp_all)
  ultimately have "CHR ''{'' \<notin> set (''summarize: '' @ join ''.'' sentences)"
    "CHR ''}'' \<notin> set (''summarize: '' @ join ''.'' sentences)"
    by simp_all
  from format_no_braces[OF this]
  show "summarize field t5 sentences kwargs = t5 (''summarize: '' @ join ''.'' sentences) kwargs"
    by (simp add: summarize_def)
next
  assume "CHR ''{'' \<notin> set question \<and> CHR ''}'' \<notin> set question \<and>
    CHR ''{'' \<notin> set text_arg \<and> CHR ''}'' \<notin> set text_arg"
  then have "CHR ''{'' \<notin> set (''Based on the following context answer this question: '' @
        question @ '' Context: '' @ text_arg)"
    "CHR ''}'' \<notin> set (''Based on the following context answer this question: '' @
        question @ '' Context: '' @ text_arg)"
    by simp_all
  from format_no_braces[OF this]
  show "prompt_sum field t5 text_arg question kwargs =
        t5 (''Based on the following context answer this question: '' @ question @
            '' Context: '' @ text_arg) kwargs"
    by (simp add: prompt_sum_def)
qed

theorem prompts_without_braces_witness:
  "summarize (\<lambda>args k s. Inl (KeyError s)) (\<lambda>x kwargs. Inr x) [''a b'', ''c''] []
     = Inr ''summarize: a b.c'' \<and>
   prompt_sum (\<lambda>args k s. Inl (KeyError s)) (\<lambda>x kwargs. Inr x) ''It rains.'' ''Why?'' []
     = Inr ''Based on the following context answer this question: Why? Context: It rains.''"
proof (intro conjI)
  have s: "\<forall>s \<in> set [''a b'', ''c'']. CHR ''{'' \<notin> set s \<and> CHR ''}'' \<notin> set s"
    by simp
  from mp[OF conjunct1[OF prompts_without_braces] s]
  show "summarize (\<lambda>args k s. Inl (KeyError s)) (\<lambda>x kwargs. Inr x) [''a b'', ''c''] []
     = Inr ''summarize: a b.c''"
    by simp
  have p: "CHR ''{'' \<notin> set ''Why?'' \<and> CHR ''}'' \<notin> set ''Why?'' \<and>
    CHR ''{'' \<notin> set ''It rains.'' \<and> CHR ''}'' \<notin> set ''It rains.''"
    by simp
  from mp[OF conjunct2[OF prompts_without_braces] p]
  show "prompt_sum (\<lambda>args k s. Inl (KeyError s)) (\<lambda>x kwargs. Inr x) ''It rains.'' ''Why?'' []
     = Inr ''Based on the following context answer this question: Why? Context: It rains.''"
    by simp
qed

subsection \<open>Dot score\<close>












end
